theory Spec2Isabelle
  imports Complex_Main "HOL-Library.Sublist"
begin

section \<open>Python strings\<close>

text \<open>
  A Python \<open>str\<close> is modelled as a \<open>string\<close> whose characters are read as the code
  points U+0000 to U+00FF. On this range \<open>str.lower\<close> and the whitespace class of
  \<open>str.strip\<close> are the functions below; text with code points beyond U+00FF is outside
  the model. The test \<open>needle in hay\<close> is \<open>sublist needle hay\<close>.
\<close>

definition lower_char :: "char \<Rightarrow> char" where
  \<comment> \<open>The upper-case letters are U+0041..U+005A and U+00C0..U+00DE without U+00D7; the
      lower-case letter is 32 code points further, which sets bit 5.\<close>
  "lower_char c =
     (let n = (of_char c :: nat)
      in if (65 \<le> n \<and> n \<le> 90) \<or> (192 \<le> n \<and> n \<le> 222 \<and> n \<noteq> 215)
         then Char (digit0 c) (digit1 c) (digit2 c) (digit3 c) (digit4 c) True (digit6 c) (digit7 c)
         else c)"

definition lower :: "string \<Rightarrow> string" where
  "lower s = map lower_char s"

definition isspace :: "char \<Rightarrow> bool" where
  "isspace c =
     (let n = (of_char c :: nat)
      in (9 \<le> n \<and> n \<le> 13) \<or> (28 \<le> n \<and> n \<le> 32) \<or> n = 133 \<or> n = 160)"

definition strip :: "string \<Rightarrow> string" where
  "strip s = rev (dropWhile isspace (rev (dropWhile isspace s)))"

section \<open>Exceptions\<close>

text \<open>
  A raised instance of \<open>Exception\<close>: its class name and the text \<open>str(e)\<close>. A function
  that can raise returns \<open>exn + 'a\<close>, with \<open>Inl\<close> for the raise. Conditions that are not
  instances of \<open>Exception\<close> (interrupts, interpreter exit) are outside the model.
\<close>

datatype exn = Exn (exn_class: string) (exn_str: string)

definition IndexError :: exn where
  "IndexError = Exn ''IndexError'' ''list index out of range''"

section \<open>The agentic workflow (workflow/agentic_workflow_with_mcp_websearch.py)\<close>

subsection \<open>State and collaborators\<close>

datatype message = HumanMessage (content: string)

record AgentState =
  messages :: "message list"

text \<open>
  The reducer \<open>add_messages\<close> annotated on the \<open>messages\<close> channel. Every message the
  workflow creates has no id, so the reducer gives it a fresh one and appends it.
\<close>

definition add_messages :: "message list \<Rightarrow> message list \<Rightarrow> message list" where
  "add_messages left right = left @ right"

text \<open>
  A chain \<open>prompt | self.llm | StrOutputParser()\<close> is a call of the language model on
  one of four fixed templates with its variables filled in.
\<close>

datatype prompt =
    AnswerDirectly string \<comment> \<open>the template of \<open>_ai_assistant\<close>: question\<close>
  | GraderPrompt string string \<comment> \<open>the template of \<open>_grade_documents\<close>: question, docs\<close>
  | ProductBot string string \<comment> \<open>\<open>PROMPT_REGISTRY[PromptType.PRODUCT_BOT]\<close>: context, question\<close>
  | RewritePrompt string \<comment> \<open>the template of \<open>_rewrite\<close>: question\<close>

record tool =
  name :: string
  ainvoke :: "string \<Rightarrow> exn + string"

text \<open>
  The object \<open>self\<close>: the language model, the tool discovery of the MCP client, the
  cached tools (\<open>None\<close> until \<open>async_init\<close>), and the \<open>MemorySaver\<close> checkpointer, which
  keeps the state of each thread id.
\<close>

record AgenticRAG =
  llm :: "prompt \<Rightarrow> exn + string"
  get_tools :: "exn + tool list"
  mcp_tools :: "tool list option"
  checkpointer :: "string \<rightharpoonup> AgentState"

definition async_init :: "AgenticRAG \<Rightarrow> exn + AgenticRAG" where
  "async_init self =
     (case get_tools self of
        Inl e \<Rightarrow> Inl e
      | Inr ts \<Rightarrow> Inr (self\<lparr>mcp_tools := Some ts\<rparr>))"

text \<open>
  \<open>next(t for t in self.mcp_tools if t.name == nm)\<close>. With no such tool \<open>next\<close> raises
  \<open>StopIteration\<close>, which a coroutine turns into a \<open>RuntimeError\<close>.
\<close>

definition next_tool :: "bool \<Rightarrow> AgenticRAG \<Rightarrow> string \<Rightarrow> exn + tool" where
  "next_tool in_coroutine self nm =
     (case mcp_tools self of
        None \<Rightarrow> Inl (Exn ''TypeError'' ([CHR 0x27] @ ''NoneType'' @ [CHR 0x27] @ '' object is not iterable''))
      | Some ts \<Rightarrow>
          (case find (\<lambda>t. name t = nm) ts of
             None \<Rightarrow>
               Inl (if in_coroutine
                    then Exn ''RuntimeError'' ''coroutine raised StopIteration''
                    else Exn ''StopIteration'' [])
           | Some t \<Rightarrow> Inr t))"

subsection \<open>Nodes\<close>

text \<open>A node returns the update for the \<open>messages\<close> channel, or raises.\<close>

definition ai_assistant :: "AgenticRAG \<Rightarrow> AgentState \<Rightarrow> exn + message list" where
  "ai_assistant self state =
     (case messages state of
        [] \<Rightarrow> Inl IndexError
      | _ # _ \<Rightarrow>
          (let last_message = content (last (messages state))
           in if list_ex (\<lambda>word. sublist word (lower last_message))
                   [''price'', ''review'', ''product'']
              then Inr [HumanMessage ''TOOL: retriever'']
              else (case llm self (AnswerDirectly last_message) of
                      Inl e \<Rightarrow> Inl e
                    | Inr response \<Rightarrow> Inr [HumanMessage response])))"

definition vector_retriever :: "AgenticRAG \<Rightarrow> AgentState \<Rightarrow> exn + message list" where
  "vector_retriever self state =
     (case messages state of
        [] \<Rightarrow> Inl IndexError
      | _ # _ \<Rightarrow>
          (let query = content (last (messages state))
           in case next_tool True self ''get_product_info'' of
                Inl e \<Rightarrow> Inl e
              | Inr t \<Rightarrow>
                  (case ainvoke t query of
                     Inl e \<Rightarrow> Inl e
                   | Inr result \<Rightarrow>
                       (let context = (if result \<noteq> [] then result else ''No data'')
                        in Inr [HumanMessage context]))))"

definition web_search_node :: "AgenticRAG \<Rightarrow> AgentState \<Rightarrow> exn + message list" where
  \<comment> \<open>the method \<open>_web_search\<close>\<close>
  "web_search_node self state =
     (case messages state of
        [] \<Rightarrow> Inl IndexError
      | _ # _ \<Rightarrow>
          (let query = content (last (messages state))
           in case next_tool False self ''web_search'' of
                Inl e \<Rightarrow> Inl e
              | Inr t \<Rightarrow>
                  (case ainvoke t query of
                     Inl e \<Rightarrow> Inl e
                   | Inr result \<Rightarrow>
                       (let context = (if result \<noteq> [] then result else ''No data from web'')
                        in Inr [HumanMessage context]))))"

datatype decision = generator | rewriter

definition grade_documents :: "AgenticRAG \<Rightarrow> AgentState \<Rightarrow> exn + decision" where
  "grade_documents self state =
     (case messages state of
        [] \<Rightarrow> Inl IndexError
      | _ # _ \<Rightarrow>
          (let question = content (hd (messages state));
               docs = content (last (messages state))
           in case llm self (GraderPrompt question docs) of
                Inl e \<Rightarrow> Inl e
              | Inr score \<Rightarrow>
                  Inr (if sublist ''yes'' (lower score) then generator else rewriter)))"

definition generate :: "AgenticRAG \<Rightarrow> AgentState \<Rightarrow> exn + message list" where
  "generate self state =
     (case messages state of
        [] \<Rightarrow> Inl IndexError
      | _ # _ \<Rightarrow>
          (let question = content (hd (messages state));
               docs = content (last (messages state))
           in case llm self (ProductBot docs question) of
                Inl e \<Rightarrow> Inl e
              | Inr response \<Rightarrow> Inr [HumanMessage response]))"

definition rewrite :: "AgenticRAG \<Rightarrow> AgentState \<Rightarrow> exn + message list" where
  "rewrite self state =
     (case messages state of
        [] \<Rightarrow> Inl IndexError
      | _ # _ \<Rightarrow>
          (let question = content (hd (messages state))
           in case llm self (RewritePrompt question) of
                Inl e \<Rightarrow> Inl e
              | Inr new_q \<Rightarrow> Inr [HumanMessage (strip new_q)]))"

subsection \<open>The graph of \<open>_build_workflow\<close>\<close>

datatype node = START | Assistant | Retriever | Generator | Rewriter | WebSearch | END

text \<open>The \<open>add_node\<close> table. \<open>START\<close> and \<open>END\<close> carry no function: their update is empty.\<close>

fun node_fn :: "AgenticRAG \<Rightarrow> node \<Rightarrow> AgentState \<Rightarrow> exn + message list" where
  "node_fn self Assistant state = ai_assistant self state"
| "node_fn self Retriever state = vector_retriever self state"
| "node_fn self Generator state = generate self state"
| "node_fn self Rewriter state = rewrite self state"
| "node_fn self WebSearch state = web_search_node self state"
| "node_fn self START state = Inr []"
| "node_fn self END state = Inr []"

text \<open>
  The edges: \<open>add_edge\<close> and \<open>add_conditional_edges\<close>, with the routing function of each
  conditional edge applied to the state and its result looked up in the edge's table.
\<close>

fun route :: "AgenticRAG \<Rightarrow> node \<Rightarrow> AgentState \<Rightarrow> exn + node" where
  "route self START state = Inr Assistant"
| "route self Assistant state =
     (case messages state of
        [] \<Rightarrow> Inl IndexError
      | _ # _ \<Rightarrow>
          Inr (if sublist ''TOOL'' (content (last (messages state))) then Retriever else END))"
| "route self Retriever state =
     (case grade_documents self state of
        Inl e \<Rightarrow> Inl e
      | Inr generator \<Rightarrow> Inr Generator
      | Inr rewriter \<Rightarrow> Inr Rewriter)"
| "route self Generator state = Inr END"
| "route self Rewriter state = Inr WebSearch"
| "route self WebSearch state = Inr Generator"
| "route self END state = Inr END"

text \<open>
  One step of the compiled graph: the node runs on the state, the reducer merges its
  update, and the node's outgoing edge chooses the next node from the merged state. A
  raise in the node or in the routing function ends the run with the step not committed.
\<close>

definition step :: "AgenticRAG \<Rightarrow> node \<Rightarrow> AgentState \<Rightarrow> exn + node \<times> AgentState" where
  "step self n state =
     (case node_fn self n state of
        Inl e \<Rightarrow> Inl e
      | Inr update \<Rightarrow>
          (let state' = state\<lparr>messages := add_messages (messages state) update\<rparr>
           in case route self n state' of
                Inl e \<Rightarrow> Inl e
              | Inr n' \<Rightarrow> Inr (n', state')))"

fun rank :: "node \<Rightarrow> nat" where
  "rank START = 6"
| "rank Assistant = 5"
| "rank Retriever = 4"
| "rank Rewriter = 3"
| "rank WebSearch = 2"
| "rank Generator = 1"
| "rank END = 0"

text \<open>
  A run from node \<open>n\<close>: the nodes entered, each with the state it was entered with, and
  the outcome, which is the final state at \<open>END\<close> or the exception that ended the run.
\<close>

function exec :: "AgenticRAG \<Rightarrow> node \<Rightarrow> AgentState
    \<Rightarrow> (node \<times> AgentState) list \<times> (exn + AgentState)" where
  "exec self n state =
     (if n = END then ([], Inr state)
      else (case step self n state of
              Inl e \<Rightarrow> ([(n, state)], Inl e)
            | Inr (n', state') \<Rightarrow>
                (case exec self n' state' of (tr, r) \<Rightarrow> ((n, state) # tr, r))))"
  by pat_completeness auto
termination
proof (relation "measure (\<lambda>(self, n, state). rank n)")
  show "wf (measure (\<lambda>(self, n, state). rank n))"
    by simp
next
  fix self :: AgenticRAG and n :: node and state :: AgentState
    and x2 :: "node \<times> AgentState" and n' :: node and state' :: AgentState
  assume ne: "n \<noteq> END" and s: "step self n state = Inr x2" and x: "(n', state') = x2"
  from s x have "route self n state' = Inr n'"
    by (auto simp: step_def Let_def split: sum.splits)
  with ne have "rank n' < rank n"
    by (cases n) (auto split: list.splits sum.splits decision.splits if_splits)
  then show "((self, n', state'), (self, n, state)) \<in> measure (\<lambda>(self, n, state). rank n)"
    by simp
qed

subsection \<open>The public \<open>run\<close>\<close>

text \<open>
  \<open>self.app.ainvoke(input, config)\<close> on the graph compiled with the checkpointer: the
  input is merged by the reducer into the state saved for the thread id (no messages on a
  thread never used), and the graph runs from \<open>START\<close>.
\<close>

definition app_ainvoke :: "AgenticRAG \<Rightarrow> message list \<Rightarrow> string
    \<Rightarrow> (node \<times> AgentState) list \<times> (exn + AgentState)" where
  "app_ainvoke self input thread_id =
     (let saved = (case checkpointer self thread_id of None \<Rightarrow> [] | Some st \<Rightarrow> messages st)
      in exec self START \<lparr>messages = add_messages saved input\<rparr>)"

text \<open>The state the checkpointer holds after a run: that of the last committed step.\<close>

definition committed :: "(node \<times> AgentState) list \<times> (exn + AgentState) \<Rightarrow> AgentState" where
  "committed out =
     (case snd out of
        Inr st \<Rightarrow> st
      | Inl e \<Rightarrow> (case fst out of [] \<Rightarrow> \<lparr>messages = []\<rparr> | _ # _ \<Rightarrow> snd (last (fst out))))"

definition default_thread :: string where
  "default_thread = ''default_thread''"

definition run :: "AgenticRAG \<Rightarrow> string \<Rightarrow> string \<Rightarrow> (exn + string) \<times> AgenticRAG" where
  "run self query thread_id =
     (case (case mcp_tools self of None \<Rightarrow> async_init self | Some ts \<Rightarrow> Inr self) of
        Inl e \<Rightarrow> (Inl e, self)
      | Inr self1 \<Rightarrow>
          (let out = app_ainvoke self1 [HumanMessage query] thread_id;
               self2 = self1\<lparr>checkpointer := (checkpointer self1)(thread_id \<mapsto> committed out)\<rparr>
           in case snd out of
                Inl e \<Rightarrow> (Inl e, self2)
              | Inr result \<Rightarrow>
                  (case messages result of
                     [] \<Rightarrow> (Inl IndexError, self2)
                   | _ # _ \<Rightarrow> (Inr (content (last (messages result))), self2))))"

text \<open>The nodes a run entered, without \<open>START\<close>, and the states it went through.\<close>

definition visited :: "(node \<times> AgentState) list \<times> (exn + AgentState) \<Rightarrow> node list" where
  "visited out = filter (\<lambda>n. n \<noteq> START) (map fst (fst out))"

definition states_of :: "(node \<times> AgentState) list \<times> (exn + AgentState) \<Rightarrow> AgentState list" where
  "states_of out = map snd (fst out) @ (case snd out of Inl e \<Rightarrow> [] | Inr st \<Rightarrow> [st])"

section \<open>The tool server (mcp\_servers/product\_search\_server.py)\<close>

text \<open>
  A document of the vector store. The server only inserts metadata values into an
  f-string, so a value is given here by its text \<open>str(v)\<close>; the ingestion pipeline keeps
  the cells of the data frame.
\<close>

record 'v Document =
  page_content :: string
  metadata :: "string \<rightharpoonup> 'v"

definition nl :: string where
  "nl = [CHR 0x0A]"

fun join :: "string \<Rightarrow> string list \<Rightarrow> string" where
  "join sep [] = []"
| "join sep [x] = x"
| "join sep (x # y # ys) = x @ sep @ join sep (y # ys)"

definition dict_get :: "('k \<rightharpoonup> 'v) \<Rightarrow> 'k \<Rightarrow> 'v \<Rightarrow> 'v" where
  "dict_get d key dflt = (case d key of None \<Rightarrow> dflt | Some v \<Rightarrow> v)"

definition format_doc :: "string Document \<Rightarrow> string" where
  \<comment> \<open>the body of the loop of \<open>format_docs\<close>\<close>
  "format_doc d =
     (let meta = metadata d
      in ''Title: '' @ dict_get meta ''product_title'' ''N/A'' @ nl
         @ ''Price: '' @ dict_get meta ''price'' ''N/A'' @ nl
         @ ''Rating: '' @ dict_get meta ''rating'' ''N/A'' @ nl
         @ ''Reviews:'' @ nl @ strip (page_content d))"

definition format_docs :: "string Document list \<Rightarrow> string" where
  "format_docs docs =
     (if docs = [] then []
      else join (nl @ nl @ ''---'' @ nl @ nl) (map format_doc docs))"

text \<open>The collaborators of the server: the compression retriever and DuckDuckGo.\<close>

record server =
  retriever_invoke :: "string \<Rightarrow> exn + string Document list"
  duckduckgo_run :: "string \<Rightarrow> exn + string"

definition no_local_results :: string where
  "no_local_results = ''No local results found.''"

definition get_product_info_try :: "server \<Rightarrow> string \<Rightarrow> exn + string" where
  \<comment> \<open>the \<open>try\<close> block of \<open>get_product_info\<close>\<close>
  "get_product_info_try srv query =
     (case retriever_invoke srv query of
        Inl e \<Rightarrow> Inl e
      | Inr docs \<Rightarrow>
          (let context = format_docs docs
           in if strip context = [] then Inr no_local_results else Inr context))"

definition get_product_info :: "server \<Rightarrow> string \<Rightarrow> exn + string" where
  "get_product_info srv query =
     (case get_product_info_try srv query of
        Inl e \<Rightarrow> Inr (''Error retrieving product info: '' @ exn_str e)
      | Inr r \<Rightarrow> Inr r)"

definition web_search :: "server \<Rightarrow> string \<Rightarrow> exn + string" where
  "web_search srv query =
     (case duckduckgo_run srv query of
        Inl e \<Rightarrow> Inr (''Error during web search: '' @ exn_str e)
      | Inr r \<Rightarrow> Inr r)"

section \<open>The client with the fallback (mcp\_servers/client.py)\<close>

text \<open>
  \<open>main\<close> returns nothing; what it does is the sequence of lines it prints and tools it
  invokes. \<open>asyncio.wait_for\<close> raises \<open>TimeoutError\<close> when the tool has not answered in
  time: the tool's \<open>ainvoke\<close> then yields that exception.
\<close>

datatype event =
    Print string
  | PrintTools "string list" \<comment> \<open>the line \<open>Available tools: [...]\<close>\<close>
  | Invoke string string \<comment> \<open>\<open>ainvoke\<close> of the tool of that name on that query\<close>

definition first_tool :: "tool list \<Rightarrow> string \<Rightarrow> exn + tool" where
  \<comment> \<open>\<open>next(t for t in tools if t.name == nm)\<close>, inside the \<open>try\<close> of \<open>main\<close>\<close>
  "first_tool tools nm =
     (case find (\<lambda>t. name t = nm) tools of
        None \<Rightarrow> Inl (Exn ''StopIteration'' [])
      | Some t \<Rightarrow> Inr t)"

definition error_occurred :: "exn \<Rightarrow> event" where
  "error_occurred e = Print (''Error occurred: '' @ exn_str e)"

definition fallback :: "tool \<Rightarrow> string \<Rightarrow> string \<Rightarrow> event list" where
  \<comment> \<open>step 2 of \<open>main\<close>\<close>
  "fallback web_tool query retriever_result =
     (if strip retriever_result = [] \<or> sublist no_local_results retriever_result
      then Print (nl @ '' No local results, falling back to web search...'' @ nl)
           # Invoke (name web_tool) query
           # (case ainvoke web_tool query of
                Inl e \<Rightarrow> [error_occurred e]
              | Inr web_result \<Rightarrow> [Print (''Web Search Result:'' @ nl @ '' '' @ web_result)])
      else [])"

definition client_main :: "(exn + tool list) \<Rightarrow> event list" where
  "client_main client_get_tools =
     Print ''Creating MCP client...''
     # Print ''Connecting to MCP server and discovering tools...''
     # (case client_get_tools of
          Inl e \<Rightarrow> [error_occurred e]
        | Inr tools \<Rightarrow>
            PrintTools (map name tools)
            # (case first_tool tools ''get_product_info'' of
                 Inl e \<Rightarrow> [error_occurred e]
               | Inr retriever_tool \<Rightarrow>
                   (case first_tool tools ''web_search'' of
                      Inl e \<Rightarrow> [error_occurred e]
                    | Inr web_tool \<Rightarrow>
                        (let query = ''Dell Laptop?''
                         in Print (''Querying retriever with: '' @ query)
                            # Invoke (name retriever_tool) query
                            # (case ainvoke retriever_tool query of
                                 Inr retriever_result \<Rightarrow>
                                   Print (nl @ ''Retriever Result:'' @ nl @ '' '' @ retriever_result)
                                   # fallback web_tool query retriever_result
                               | Inl e \<Rightarrow>
                                   (if exn_class e = ''TimeoutError''
                                    then Print ''Retriever timed out after 30 seconds''
                                         # fallback web_tool query ''Timeout error''
                                    else [error_occurred e]))))))"

text \<open>How often the tool of a given name was invoked.\<close>

definition invocations :: "string \<Rightarrow> event list \<Rightarrow> nat" where
  "invocations nm evs =
     length (filter (\<lambda>ev. case ev of Invoke n q \<Rightarrow> n = nm | _ \<Rightarrow> False) evs)"

section \<open>Ingestion (etl/data\_ingestion.py)\<close>

text \<open>
  A cell of a data frame is what \<open>pd.read_csv\<close> made of the text of the field: an object
  (a string), a number, or the missing value. A row maps column names to cells.
\<close>

datatype cell = Str string | Num real | NaN

record DataFrame =
  columns :: "string list"
  rows :: "(string \<rightharpoonup> cell) list"

text \<open>
  What the pipeline reads from its surroundings: whether \<open>ModelLoader()\<close> raises
  (\<open>utils.model_loader\<close>), the process environment, the working directory, the files as
  \<open>pd.read_csv\<close> reads them (\<open>None\<close> where no file exists), the static configuration
  (\<open>utils.config_loader\<close>), and the calls into the vector store.
\<close>

record ingestion_env =
  ModelLoader :: "exn option"
  environ :: "string \<rightharpoonup> string"
  getcwd :: string
  read_csv :: "string \<rightharpoonup> (exn + DataFrame)"
  load_config :: "exn + unit"
  add_documents :: "cell Document list \<Rightarrow> exn + string list"
  similarity_search :: "cell Document list \<Rightarrow> string \<Rightarrow> exn + cell Document list"

record DataIngestion =
  csv_path :: string
  product_data :: DataFrame

definition repr_list :: "string list \<Rightarrow> string" where
  \<comment> \<open>\<open>repr\<close> of a list of strings that need no escaping\<close>
  "repr_list xs = ''['' @ join '', '' (map (\<lambda>s. [CHR 0x27] @ s @ [CHR 0x27]) xs) @ '']''"

definition required_vars :: "string list" where
  "required_vars =
     [''GOOGLE_API_KEY'', ''ASTRA_DB_API_ENDPOINT'', ''ASTRA_DB_APPLICATION_TOKEN'',
      ''ASTRA_DB_KEYSPACE'']"

definition load_env_variables :: "ingestion_env \<Rightarrow> exn option" where
  "load_env_variables env =
     (let missing_vars = filter (\<lambda>var. environ env var = None) required_vars
      in if missing_vars \<noteq> []
         then Some (Exn ''OSError'' (''Missing environment variables: '' @ repr_list missing_vars))
         else None)"

definition get_csv_path :: "ingestion_env \<Rightarrow> exn + string" where
  "get_csv_path env =
     (let current_dir = getcwd env;
          csv_path = (if current_dir \<noteq> [] \<and> last current_dir = CHR ''/''
                      then current_dir @ ''data/product_reviews.csv''
                      else current_dir @ ''/data/product_reviews.csv'')
      in if read_csv env csv_path = None
         then Inl (Exn ''FileNotFoundError'' (''CSV file not found at: '' @ csv_path))
         else Inr csv_path)"

definition expected_columns :: "string list" where
  "expected_columns =
     [''product_id'', ''product_title'', ''rating'', ''total_reviews'', ''price'', ''top_reviews'']"

definition load_csv :: "ingestion_env \<Rightarrow> string \<Rightarrow> exn + DataFrame" where
  \<comment> \<open>in the message Python prints the set in an order of its own\<close>
  "load_csv env path =
     (case read_csv env path of
        None \<Rightarrow> Inl (Exn ''FileNotFoundError'' path)
      | Some (Inl e) \<Rightarrow> Inl e
      | Some (Inr df) \<Rightarrow>
          if \<not> set expected_columns \<subseteq> set (columns df)
          then Inl (Exn ''ValueError''
                 (''CSV must contain columns: {'' @ join '', ''
                    (map (\<lambda>s. [CHR 0x27] @ s @ [CHR 0x27]) expected_columns) @ ''}''))
          else Inr df)"

definition DataIngestion_init :: "ingestion_env \<Rightarrow> exn + DataIngestion" where
  \<comment> \<open>\<open>__init__\<close>\<close>
  "DataIngestion_init env =
     (case ModelLoader env of
        Some e \<Rightarrow> Inl e
      | None \<Rightarrow>
          (case load_env_variables env of
             Some e \<Rightarrow> Inl e
           | None \<Rightarrow>
               (case get_csv_path env of
                  Inl e \<Rightarrow> Inl e
                | Inr path \<Rightarrow>
                    (case load_csv env path of
                       Inl e \<Rightarrow> Inl e
                     | Inr df \<Rightarrow>
                         (case load_config env of
                            Inl e \<Rightarrow> Inl e
                          | Inr c \<Rightarrow> Inr \<lparr>csv_path = path, product_data = df\<rparr>)))))"

definition getitem :: "(string \<rightharpoonup> cell) \<Rightarrow> string \<Rightarrow> exn + cell" where
  \<comment> \<open>\<open>row[key]\<close>\<close>
  "getitem row key =
     (case row key of
        None \<Rightarrow> Inl (Exn ''KeyError'' ([CHR 0x27] @ key @ [CHR 0x27]))
      | Some v \<Rightarrow> Inr v)"

text \<open>
  The body of the loop of \<open>transform_data\<close>. \<open>Document\<close> validates that the content is
  a string.
\<close>

definition transform_row :: "(string \<rightharpoonup> cell) \<Rightarrow> exn + cell Document" where
  "transform_row row =
     (case getitem row ''product_id'' of Inl e \<Rightarrow> Inl e | Inr product_id \<Rightarrow>
      case getitem row ''product_title'' of Inl e \<Rightarrow> Inl e | Inr product_title \<Rightarrow>
      case getitem row ''rating'' of Inl e \<Rightarrow> Inl e | Inr rating \<Rightarrow>
      case getitem row ''total_reviews'' of Inl e \<Rightarrow> Inl e | Inr total_reviews \<Rightarrow>
      case getitem row ''price'' of Inl e \<Rightarrow> Inl e | Inr price \<Rightarrow>
      case getitem row ''top_reviews'' of Inl e \<Rightarrow> Inl e | Inr top_reviews \<Rightarrow>
        (case top_reviews of
           Str text \<Rightarrow>
             Inr \<lparr>page_content = text,
                  metadata = [''product_id'' \<mapsto> product_id, ''product_title'' \<mapsto> product_title,
                              ''rating'' \<mapsto> rating, ''total_reviews'' \<mapsto> total_reviews,
                              ''price'' \<mapsto> price]\<rparr>
         | _ \<Rightarrow> Inl (Exn ''ValidationError'' ''page_content: Input should be a valid string'')))"

fun transform_rows :: "(string \<rightharpoonup> cell) list \<Rightarrow> exn + cell Document list" where
  "transform_rows [] = Inr []"
| "transform_rows (row # rest) =
     (case transform_row row of
        Inl e \<Rightarrow> Inl e
      | Inr doc \<Rightarrow>
          (case transform_rows rest of
             Inl e \<Rightarrow> Inl e
           | Inr documents \<Rightarrow> Inr (doc # documents)))"

definition transform_data :: "DataIngestion \<Rightarrow> exn + cell Document list" where
  "transform_data self = transform_rows (rows (product_data self))"

text \<open>
  \<open>run_pipeline\<close> on a collection holding \<open>store\<close>: the exception it ends with, if any,
  and the collection afterwards.
\<close>

definition run_pipeline :: "ingestion_env \<Rightarrow> DataIngestion \<Rightarrow> cell Document list
    \<Rightarrow> exn option \<times> cell Document list" where
  "run_pipeline env self store =
     (case transform_data self of
        Inl e \<Rightarrow> (Some e, store)
      | Inr documents \<Rightarrow>
          (case add_documents env documents of
             Inl e \<Rightarrow> (Some e, store)
           | Inr inserted_ids \<Rightarrow>
               (let store' = store @ documents
                in case similarity_search env store' ''Can you tell me the low budget iphone?'' of
                     Inl e \<Rightarrow> (Some e, store')
                   | Inr results \<Rightarrow> (None, store'))))"

definition ingestion_main :: "ingestion_env \<Rightarrow> cell Document list
    \<Rightarrow> exn option \<times> cell Document list" where
  \<comment> \<open>the script: \<open>DataIngestion().run_pipeline()\<close>\<close>
  "ingestion_main env store =
     (case DataIngestion_init env of
        Inl e \<Rightarrow> (Some e, store)
      | Inr self \<Rightarrow> run_pipeline env self store)"

section \<open>The retriever (retriever/retrieval.py)\<close>

text \<open>The static configuration is the dictionary \<open>load_config()\<close> read from YAML.\<close>

datatype yaml = YNull | YInt int | YStr string | YDict "(string \<times> yaml) list"

fun subscript :: "yaml \<Rightarrow> string \<Rightarrow> exn + yaml" where
  \<comment> \<open>\<open>d[key]\<close>\<close>
  "subscript (YDict kvs) key =
     (case map_of kvs key of
        None \<Rightarrow> Inl (Exn ''KeyError'' ([CHR 0x27] @ key @ [CHR 0x27]))
      | Some v \<Rightarrow> Inr v)"
| "subscript YNull key =
     Inl (Exn ''TypeError'' ([CHR 0x27] @ ''NoneType'' @ [CHR 0x27] @ '' object is not subscriptable''))"
| "subscript (YInt i) key =
     Inl (Exn ''TypeError'' ([CHR 0x27] @ ''int'' @ [CHR 0x27] @ '' object is not subscriptable''))"
| "subscript (YStr s) key = Inl (Exn ''TypeError'' ''string indices must be integers'')"

record mmr_retriever =
  search_type :: string
  top_k :: yaml \<comment> \<open>\<open>search_kwargs["k"]\<close>\<close>
  fetch_k :: nat
  lambda_mult :: real
  score_threshold :: real

record VectorStore =
  collection_name :: yaml

record ContextualCompressionRetriever =
  base_retriever :: mmr_retriever

text \<open>
  The object \<open>self\<close> of class \<open>Retriever\<close>, with whether loading the embeddings,
  constructing the vector store and loading the language model raise.
\<close>

record Retriever =
  config :: "(string \<times> yaml) list"
  vstore :: "VectorStore option"
  retriever_instance :: "ContextualCompressionRetriever option"
  load_embeddings :: "exn option"
  AstraDBVectorStore :: "exn option"
  load_llm :: "exn option"

definition load_vstore :: "Retriever \<Rightarrow> exn + Retriever" where
  \<comment> \<open>the first \<open>if\<close> of \<open>load_retriever\<close>\<close>
  "load_vstore self =
     (if vstore self = None
      then (case subscript (YDict (config self)) ''astra_db'' of
              Inl e \<Rightarrow> Inl e
            | Inr astra_db \<Rightarrow>
                (case subscript astra_db ''collection_name'' of
                   Inl e \<Rightarrow> Inl e
                 | Inr cn \<Rightarrow>
                     (case load_embeddings self of
                        Some e \<Rightarrow> Inl e
                      | None \<Rightarrow>
                          (case AstraDBVectorStore self of
                             Some e \<Rightarrow> Inl e
                           | None \<Rightarrow> Inr (self\<lparr>vstore := Some \<lparr>collection_name = cn\<rparr>\<rparr>)))))
      else Inr self)"

definition config_top_k :: "Retriever \<Rightarrow> exn + yaml" where
  \<comment> \<open>\<open>self.config["retriever"]["top_k"] if "retriever" in self.config else 3\<close>\<close>
  "config_top_k self =
     (if map_of (config self) ''retriever'' \<noteq> None
      then (case subscript (YDict (config self)) ''retriever'' of
              Inl e \<Rightarrow> Inl e
            | Inr retriever_cfg \<Rightarrow> subscript retriever_cfg ''top_k'')
      else Inr (YInt 3))"

definition load_retriever :: "Retriever
    \<Rightarrow> (exn + ContextualCompressionRetriever) \<times> Retriever" where
  "load_retriever self =
     (case load_vstore self of
        Inl e \<Rightarrow> (Inl e, self)
      | Inr self1 \<Rightarrow>
          (case retriever_instance self1 of
             Some r \<Rightarrow> (Inr r, self1)
           | None \<Rightarrow>
               (case config_top_k self1 of
                  Inl e \<Rightarrow> (Inl e, self1)
                | Inr k \<Rightarrow>
                    (let mmr = \<lparr>search_type = ''mmr'', top_k = k, fetch_k = 20,
                                lambda_mult = 0.7, score_threshold = 0.6\<rparr>
                     in case load_llm self1 of
                          Some e \<Rightarrow> (Inl e, self1)
                        | None \<Rightarrow>
                            (let r = \<lparr>base_retriever = mmr\<rparr>
                             in (Inr r, self1\<lparr>retriever_instance := Some r\<rparr>))))))"

section \<open>Evaluation (evaluation/ragas\_eval.py)\<close>

text \<open>
  The sample is the triple of user input, response and retrieved contexts. The
  collaborators: the validation of \<open>SingleTurnSample\<close>, \<open>asyncio.run\<close> (which raises
  inside a running event loop), the model loader, and the two \<open>single_turn_ascore\<close>.
\<close>

type_synonym sample = "string \<times> string \<times> string list"

record evaluation_env =
  SingleTurnSample :: "sample \<Rightarrow> exn option"
  asyncio_run :: "exn option"
  loader_llm :: "exn option"
  loader_embeddings :: "exn option"
  context_precision_ascore :: "sample \<Rightarrow> exn + real"
  response_relevancy_ascore :: "sample \<Rightarrow> exn + real"

text \<open>What a call hands back: the score, or the exception object as a value.\<close>

datatype returned = Score real | ExceptionObject exn

definition evaluate_context_precision_try :: "evaluation_env \<Rightarrow> string \<Rightarrow> string
    \<Rightarrow> string list \<Rightarrow> exn + real" where
  \<comment> \<open>the \<open>try\<close> block\<close>
  "evaluate_context_precision_try env query response retrieved_context =
     (let sample = (query, response, retrieved_context)
      in case SingleTurnSample env sample of
           Some e \<Rightarrow> Inl e
         | None \<Rightarrow>
             (case asyncio_run env of
                Some e \<Rightarrow> Inl e
              | None \<Rightarrow>
                  (case loader_llm env of
                     Some e \<Rightarrow> Inl e
                   | None \<Rightarrow> context_precision_ascore env sample)))"

definition evaluate_context_precision :: "evaluation_env \<Rightarrow> string \<Rightarrow> string
    \<Rightarrow> string list \<Rightarrow> exn + returned" where
  "evaluate_context_precision env query response retrieved_context =
     (case evaluate_context_precision_try env query response retrieved_context of
        Inl e \<Rightarrow> Inr (ExceptionObject e)
      | Inr result \<Rightarrow> Inr (Score result))"

definition evaluate_response_relevancy_try :: "evaluation_env \<Rightarrow> string \<Rightarrow> string
    \<Rightarrow> string list \<Rightarrow> exn + real" where
  \<comment> \<open>the \<open>try\<close> block\<close>
  "evaluate_response_relevancy_try env query response retrieved_context =
     (let sample = (query, response, retrieved_context)
      in case SingleTurnSample env sample of
           Some e \<Rightarrow> Inl e
         | None \<Rightarrow>
             (case asyncio_run env of
                Some e \<Rightarrow> Inl e
              | None \<Rightarrow>
                  (case loader_llm env of
                     Some e \<Rightarrow> Inl e
                   | None \<Rightarrow>
                       (case loader_embeddings env of
                          Some e \<Rightarrow> Inl e
                        | None \<Rightarrow> response_relevancy_ascore env sample))))"

definition evaluate_response_relevancy :: "evaluation_env \<Rightarrow> string \<Rightarrow> string
    \<Rightarrow> string list \<Rightarrow> exn + returned" where
  "evaluate_response_relevancy env query response retrieved_context =
     (case evaluate_response_relevancy_try env query response retrieved_context of
        Inl e \<Rightarrow> Inr (ExceptionObject e)
      | Inr result \<Rightarrow> Inr (Score result))"

section \<open>Example collaborators\<close>

text \<open>Concrete tools and language models, on which the results below are run.\<close>

definition example_tools :: "tool list" where
  "example_tools =
     [\<lparr>name = ''get_product_info'', ainvoke = (\<lambda>q. Inr ''Title: iPhone 16'')\<rparr>,
      \<lparr>name = ''web_search'', ainvoke = (\<lambda>q. Inr ''iPhone 16 from 799 USD'')\<rparr>]"

definition example_llm :: "string \<Rightarrow> string \<Rightarrow> prompt \<Rightarrow> exn + string" where
  \<comment> \<open>a model that answers directly with \<open>answer\<close> and grades with \<open>grade\<close>\<close>
  "example_llm answer grade p =
     (case p of
        AnswerDirectly q \<Rightarrow> Inr answer
      | GraderPrompt q d \<Rightarrow> Inr grade
      | ProductBot c q \<Rightarrow> Inr (''Based on: '' @ c)
      | RewritePrompt q \<Rightarrow> Inr '' iPhone 16 price '')"

definition example_rag :: "string \<Rightarrow> string \<Rightarrow> AgenticRAG" where
  "example_rag answer grade =
     \<lparr>llm = example_llm answer grade, get_tools = Inr example_tools,
      mcp_tools = Some example_tools, checkpointer = Map.empty\<rparr>"

text \<open>The object after a first run on the default thread.\<close>

definition resumed_rag :: AgenticRAG where
  "resumed_rag =
     snd (run (example_rag ''Hello!'' ''Yes'') ''What is the price of iPhone 16?'' default_thread)"



text \<open>
  Collaborators that show what they were asked: each tool and each template returns its
  input behind a letter, and the grader answers \<open>no\<close>.
\<close>

definition echo_tools :: "tool list" where
  "echo_tools =
     [\<lparr>name = ''get_product_info'', ainvoke = (\<lambda>q. Inr (''P:'' @ q))\<rparr>,
      \<lparr>name = ''web_search'', ainvoke = (\<lambda>q. Inr (''W:'' @ q))\<rparr>]"

definition echo_llm :: "prompt \<Rightarrow> exn + string" where
  "echo_llm p =
     (case p of
        AnswerDirectly q \<Rightarrow> Inr (''A:'' @ q)
      | GraderPrompt q d \<Rightarrow> Inr ''no''
      | ProductBot c q \<Rightarrow> Inr (''G:'' @ c @ '' Q:'' @ q)
      | RewritePrompt q \<Rightarrow> Inr (''R:'' @ q))"

definition echo_rag :: AgenticRAG where
  "echo_rag =
     \<lparr>llm = echo_llm, get_tools = Inr echo_tools, mcp_tools = Some echo_tools,
      checkpointer = Map.empty\<rparr>"

definition example_doc :: "string Document" where
  "example_doc =
     \<lparr>page_content = '' Great phone. '',
      metadata = [''product_title'' \<mapsto> ''iPhone 16'', ''price'' \<mapsto> ''799'']\<rparr>"

definition example_server :: server where
  "example_server =
     \<lparr>retriever_invoke =
        (\<lambda>q. if q = ''Dell Laptop?'' then Inr []
             else if q = ''iPhone'' then Inr [example_doc]
             else Inl (Exn ''ConnectionError'' ''database unreachable'')),
      duckduckgo_run =
        (\<lambda>q. if q = ''Dell Laptop?'' then Inr ''Dell laptops from 499 USD''
             else Inl (Exn ''RatelimitException'' ''202 Ratelimit''))\<rparr>"

definition client_tools :: "string \<Rightarrow> tool list" where
  \<comment> \<open>tools whose retriever answers \<open>r\<close>\<close>
  "client_tools r =
     [\<lparr>name = ''get_product_info'', ainvoke = (\<lambda>q. Inr r)\<rparr>,
      \<lparr>name = ''web_search'', ainvoke = (\<lambda>q. Inr ''Dell laptops from 499 USD'')\<rparr>]"

definition example_frame :: DataFrame where
  \<comment> \<open>a file without the column \<open>price\<close>\<close>
  "example_frame =
     \<lparr>columns = [''product_id'', ''product_title'', ''rating'', ''total_reviews'', ''top_reviews''],
      rows = [[''product_id'' \<mapsto> Str ''itm1'', ''product_title'' \<mapsto> Str ''iPhone 16'',
               ''rating'' \<mapsto> Num 4.6, ''total_reviews'' \<mapsto> Str ''9,407'',
               ''top_reviews'' \<mapsto> Str ''Worth every penny'']]\<rparr>"

definition example_ingestion_env :: ingestion_env where
  "example_ingestion_env =
     \<lparr>ModelLoader = None,
      environ = [''GOOGLE_API_KEY'' \<mapsto> ''k'', ''ASTRA_DB_API_ENDPOINT'' \<mapsto> ''e'',
                 ''ASTRA_DB_APPLICATION_TOKEN'' \<mapsto> ''t'', ''ASTRA_DB_KEYSPACE'' \<mapsto> ''s''],
      getcwd = ''/app'',
      read_csv = [''/app/data/product_reviews.csv'' \<mapsto> Inr example_frame],
      load_config = Inr (),
      add_documents = (\<lambda>docs. Inr (map (\<lambda>d. ''id'') docs)),
      similarity_search = (\<lambda>store q. Inr (take 4 store))\<rparr>"

definition example_retriever :: Retriever where
  \<comment> \<open>a configuration whose section \<open>retriever\<close> has no \<open>top_k\<close>\<close>
  "example_retriever =
     \<lparr>config = [(''astra_db'', YDict [(''collection_name'', YStr ''ecommercedata'')]),
                (''retriever'', YDict [(''fetch_k'', YInt 20)])],
      vstore = None, retriever_instance = None, load_embeddings = None,
      AstraDBVectorStore = None, load_llm = None\<rparr>"

definition example_evaluation_env :: evaluation_env where
  "example_evaluation_env =
     \<lparr>SingleTurnSample = (\<lambda>sample. None),
      asyncio_run = None,
      loader_llm = None,
      loader_embeddings = Some (Exn ''ValueError'' ''no embedding model''),
      context_precision_ascore = (\<lambda>sample. Inr 1),
      response_relevancy_ascore = (\<lambda>sample. Inr 1)\<rparr>"

section \<open>Properties of the strings\<close>

text \<open>On an upper-case letter \<open>lower_char\<close> adds 32 to the code point.\<close>

lemma lower_char_add32:
  assumes "(65 \<le> (of_char c :: nat) \<and> (of_char c :: nat) \<le> 90)
    \<or> (192 \<le> (of_char c :: nat) \<and> (of_char c :: nat) \<le> 222 \<and> (of_char c :: nat) \<noteq> 215)"
  shows "(of_char (lower_char c) :: nat) = of_char c + 32"
proof (cases c)
  case (Char b0 b1 b2 b3 b4 b5 b6 b7)
  have "\<not> b5"
    using assms unfolding Char
    by (cases b0; cases b1; cases b2; cases b3; cases b4; cases b5; cases b6; cases b7; simp)
  then show ?thesis
    using assms unfolding Char by (simp add: lower_char_def)
qed

text \<open>
  The lower-cased text contains a word exactly when some part of the text is that word
  up to case.
\<close>

lemma sublist_lower_iff:
  "sublist w (lower s) \<longleftrightarrow> (\<exists>pre mid post. s = pre @ mid @ post \<and> lower mid = w)"
proof
  assume "sublist w (lower s)"
  then obtain ps ss where "map lower_char s = ps @ (w @ ss)"
    by (auto simp: sublist_def lower_def)
  then obtain pre r where 1: "s = pre @ r" and 2: "map lower_char r = w @ ss"
    by (metis map_eq_append_conv)
  from 2 obtain mid post where "r = mid @ post" and "map lower_char mid = w"
    by (metis map_eq_append_conv)
  with 1 show "\<exists>pre mid post. s = pre @ mid @ post \<and> lower mid = w"
    by (auto simp: lower_def)
next
  assume "\<exists>pre mid post. s = pre @ mid @ post \<and> lower mid = w"
  then obtain pre mid post where "s = pre @ mid @ post" and "lower mid = w"
    by blast
  then have "lower s = lower pre @ w @ lower post"
    by (auto simp: lower_def)
  then show "sublist w (lower s)"
    by (simp add: sublist_appendI)
qed

text \<open>Stripping leaves nothing exactly when every character is whitespace.\<close>

lemma strip_empty_iff: "strip s = [] \<longleftrightarrow> list_all isspace s"
proof
  assume "strip s = []"
  then have "\<forall>c \<in> set (dropWhile isspace s). isspace c"
    by (simp add: strip_def)
  then have "dropWhile isspace s = []"
    using hd_dropWhile[of isspace s] by (cases "dropWhile isspace s") auto
  then show "list_all isspace s"
    by (simp add: list_all_iff)
next
  assume "list_all isspace s"
  then show "strip s = []"
    by (auto simp: strip_def list_all_iff dest: set_dropWhileD)
qed

section \<open>Properties of the workflow\<close>

subsection \<open>Runs of the graph\<close>

declare exec.simps [simp del]

lemma exec_END: "exec self END state = ([], Inr state)"
  by (simp add: exec.simps)

lemma exec_raise:
  "n \<noteq> END \<Longrightarrow> step self n state = Inl e \<Longrightarrow> exec self n state = ([(n, state)], Inl e)"
  by (simp add: exec.simps)

lemma exec_next:
  "n \<noteq> END \<Longrightarrow> step self n state = Inr (n', state') \<Longrightarrow>
   exec self n state = ((n, state) # fst (exec self n' state'), snd (exec self n' state'))"
  by (simp add: exec.simps split: prod.splits)


lemma step_START: "step self START state = Inr (Assistant, state)"
  by (simp add: step_def add_messages_def)










lemma visited_next:
  "n \<noteq> END \<Longrightarrow> n \<noteq> START \<Longrightarrow> step self n s = Inr (n', s') \<Longrightarrow>
     visited (exec self n s) = n # visited (exec self n' s')"
  by (simp add: visited_def exec_next)

lemma visited_START: "visited (exec self START s) = visited (exec self Assistant s)"
  by (simp add: visited_def exec_next[OF _ step_START])






lemma step_Retriever_state:
  "step self Retriever s = Inr (n', s') \<Longrightarrow>
     \<exists>upd. vector_retriever self s = Inr upd \<and> s' = s\<lparr>messages := messages s @ upd\<rparr>
       \<and> (grade_documents self s' = Inr generator \<and> n' = Generator
          \<or> grade_documents self s' = Inr rewriter \<and> n' = Rewriter)"
  by (auto simp: step_def Let_def add_messages_def split: sum.splits decision.splits)








subsection \<open>The grader\<close>

text \<open>
  Claim C2. On a state with at least one message, when the grading model answers
  \<open>score\<close>, \<open>_grade_documents\<close> returns \<open>generator\<close> if \<open>score\<close> in lower case contains
  \<open>yes\<close> and \<open>rewriter\<close> otherwise, so also for the empty answer. It returns the decision
  only: the state after the \<open>Retriever\<close> step is the state before it with the update of
  the \<open>Retriever\<close> node appended, whatever the grader decided.
\<close>

theorem grade_documents_two_way:
  "messages state \<noteq> [] \<and>
   llm self (GraderPrompt (content (hd (messages state))) (content (last (messages state))))
     = Inr score
   \<longrightarrow> grade_documents self state
         = Inr (if sublist ''yes'' (lower score) then generator else rewriter)
       \<and> (score = [] \<longrightarrow> grade_documents self state = Inr rewriter)
       \<and> (\<forall>s n' s'. step self Retriever s = Inr (n', s') \<longrightarrow>
            (\<exists>upd. vector_retriever self s = Inr upd \<and> s' = s\<lparr>messages := messages s @ upd\<rparr>))"
proof -
  have "\<exists>upd. vector_retriever self s = Inr upd \<and> s' = s\<lparr>messages := messages s @ upd\<rparr>"
    if "step self Retriever s = Inr (n', s')" for s n' s'
    using step_Retriever_state[OF that] by blast
  then show ?thesis
    by (auto simp: grade_documents_def Let_def lower_def sublist_code split: list.splits)
qed

theorem grade_documents_two_way_witness:
  "grade_documents (example_rag ''Hello!'' ''Yes, relevant.'')
     \<lparr>messages = [HumanMessage ''price of iPhone 16?'', HumanMessage ''Title: iPhone 16'']\<rparr>
     = Inr generator
   \<and> grade_documents (example_rag ''Hello!'' ''No.'')
     \<lparr>messages = [HumanMessage ''price of iPhone 16?'', HumanMessage ''Title: iPhone 16'']\<rparr>
     = Inr rewriter"
  using grade_documents_two_way [of
     "\<lparr>messages = [HumanMessage ''price of iPhone 16?'', HumanMessage ''Title: iPhone 16'']\<rparr>"
     "example_rag ''Hello!'' ''Yes, relevant.''" "''Yes, relevant.''"]
   grade_documents_two_way [of
     "\<lparr>messages = [HumanMessage ''price of iPhone 16?'', HumanMessage ''Title: iPhone 16'']\<rparr>"
     "example_rag ''Hello!'' ''No.''" "''No.''"]
  by (simp add: example_rag_def example_llm_def lower_def lower_char_def sublist_code)

subsection \<open>The routing after \<open>Assistant\<close>\<close>

lemma assistant_keyword_step:
  assumes "messages s \<noteq> []"
    and "list_ex (\<lambda>word. sublist word (lower (content (last (messages s)))))
           [''price'', ''review'', ''product'']"
  shows "step self Assistant s
         = Inr (Retriever, s\<lparr>messages := messages s @ [HumanMessage ''TOOL: retriever'']\<rparr>)"
  using assms
  by (cases "messages s")
     (simp_all add: step_def ai_assistant_def Let_def add_messages_def sublist_code)

lemma assistant_direct_step:
  assumes "messages s \<noteq> []"
    and "\<not> list_ex (\<lambda>word. sublist word (lower (content (last (messages s)))))
           [''price'', ''review'', ''product'']"
    and "llm self (AnswerDirectly (content (last (messages s)))) = Inr response"
  shows "step self Assistant s
         = Inr (if sublist ''TOOL'' response then Retriever else END,
                s\<lparr>messages := messages s @ [HumanMessage response]\<rparr>)"
  using assms
  by (cases "messages s")
     (simp_all add: step_def ai_assistant_def Let_def add_messages_def)

lemma keyword_run_enters_Retriever:
  assumes "messages s \<noteq> []"
    and "list_ex (\<lambda>word. sublist word (lower (content (last (messages s)))))
           [''price'', ''review'', ''product'']"
  shows "prefix [Assistant, Retriever] (visited (exec self START s))"
proof -
  let ?s1 = "s\<lparr>messages := messages s @ [HumanMessage ''TOOL: retriever'']\<rparr>"
  have "visited (exec self START s) = Assistant # visited (exec self Retriever ?s1)"
    using assistant_keyword_step[OF assms] by (simp add: visited_START visited_next)
  moreover have "\<exists>rest. visited (exec self Retriever ?s1) = Retriever # rest"
    by (cases "step self Retriever ?s1")
       (auto simp: exec_raise visited_def exec_next)
  ultimately show ?thesis by auto
qed

lemma direct_answer_run:
  assumes "messages s \<noteq> []"
    and "\<not> list_ex (\<lambda>word. sublist word (lower (content (last (messages s)))))
           [''price'', ''review'', ''product'']"
    and "llm self (AnswerDirectly (content (last (messages s)))) = Inr response"
    and "\<not> sublist ''TOOL'' response"
  shows "exec self START s
         = ([(START, s), (Assistant, s)],
            Inr (s\<lparr>messages := messages s @ [HumanMessage response]\<rparr>))"
  using assistant_direct_step[OF assms(1-3)] assms(4)
  by (simp add: exec_next[OF _ step_START] exec_next exec_END)

text \<open>
  Claim C1. A query with one of the words \<open>price\<close>, \<open>review\<close>, \<open>product\<close> goes from
  \<open>Assistant\<close> to \<open>Retriever\<close> (\<open>keyword_run_enters_Retriever\<close>), and a query with none
  of them ends after \<open>Assistant\<close> with the generated answer when that answer does not
  contain \<open>TOOL\<close> (\<open>direct_answer_run\<close>). The edge after \<open>Assistant\<close> looks for \<open>TOOL\<close>
  in the last message, which then is the generated answer itself: for the query
  \<open>What is a hammer?\<close>, which has none of the three words, and a model that answers
  \<open>A hammer is a TOOL for driving nails.\<close>, the run goes on to \<open>Retriever\<close>, invokes both
  tools and returns the answer of \<open>Generator\<close>.
\<close>

theorem direct_answer_with_sentinel_text:
  "ai_assistant (example_rag ''A hammer is a TOOL for driving nails.'' ''No.'')
       \<lparr>messages = [HumanMessage ''What is a hammer?'']\<rparr>
     = Inr [HumanMessage ''A hammer is a TOOL for driving nails.'']
   \<and> visited (app_ainvoke (example_rag ''A hammer is a TOOL for driving nails.'' ''No.'')
        [HumanMessage ''What is a hammer?''] default_thread)
     = [Assistant, Retriever, Rewriter, WebSearch, Generator]
   \<and> fst (run (example_rag ''A hammer is a TOOL for driving nails.'' ''No.'')
        ''What is a hammer?'' default_thread)
     = Inr ''Based on: iPhone 16 from 799 USD''"
  by code_simp

subsection \<open>The messages of a run\<close>

lemma node_fn_one_message:
  "n \<in> {Assistant, Retriever, Generator, Rewriter, WebSearch} \<Longrightarrow> node_fn self n state = Inr upd
     \<Longrightarrow> \<exists>c. upd = [HumanMessage c]"
  by (auto simp: ai_assistant_def vector_retriever_def generate_def rewrite_def
      web_search_node_def Let_def split: list.splits sum.splits if_splits)

lemma step_appends:
  "step self n state = Inr (n', state') \<Longrightarrow>
     \<exists>upd. node_fn self n state = Inr upd \<and> state' = state\<lparr>messages := messages state @ upd\<rparr>"
  by (auto simp: step_def Let_def add_messages_def split: sum.splits)

lemma states_of_END: "states_of (exec self END s) = [s]"
  by (simp add: states_of_def exec_END)

lemma states_of_raise:
  "n \<noteq> END \<Longrightarrow> step self n s = Inl e \<Longrightarrow> states_of (exec self n s) = [s]"
  by (simp add: states_of_def exec_raise)

lemma states_of_next:
  "n \<noteq> END \<Longrightarrow> step self n s = Inr (n', s') \<Longrightarrow>
     states_of (exec self n s) = s # states_of (exec self n' s')"
  by (simp add: states_of_def exec_next)

lemma exec_states_extend:
  "s \<in> set (states_of (exec self n s0)) \<Longrightarrow> \<exists>appended. messages s = messages s0 @ appended"
proof (induction self n s0 rule: exec.induct)
  case (1 self n state)
  show ?case
  proof (cases "n = END")
    case True
    with "1.prems" show ?thesis by (simp add: states_of_END)
  next
    case False
    show ?thesis
    proof (cases "step self n state")
      case (Inl e)
      with False "1.prems" show ?thesis by (simp add: states_of_raise)
    next
      case (Inr p)
      obtain n' state' where p: "p = (n', state')" by (cases p)
      from step_appends[of self n state n' state'] Inr p
      obtain upd where u: "messages state' = messages state @ upd" by auto
      from "1.prems" False Inr p
      have "s = state \<or> s \<in> set (states_of (exec self n' state'))"
        by (simp add: states_of_next)
      then show ?thesis
      proof
        assume "s = state" then show ?thesis by simp
      next
        assume "s \<in> set (states_of (exec self n' state'))"
        from "1.IH"[OF False Inr p[symmetric] this] u show ?thesis by auto
      qed
    qed
  qed
qed

text \<open>
  On every thread the messages of a state of a run started with the query \<open>q\<close> are
  those saved for the thread id, then \<open>q\<close>, then what the run appended, so that on a
  thread with nothing saved the first message is \<open>q\<close>. An execution of one of the five
  nodes that returns appends exactly one message, leaves the earlier ones as they were,
  and that message is the last one of the new state.
\<close>

lemma run_states_extend_thread:
  "(\<forall>s \<in> set (states_of (app_ainvoke self [HumanMessage q] thread_id)).
      \<exists>appended. messages s =
        (case checkpointer self thread_id of None \<Rightarrow> [] | Some st \<Rightarrow> messages st)
        @ HumanMessage q # appended)
   \<and> (checkpointer self thread_id = None \<longrightarrow>
        (\<forall>s \<in> set (states_of (app_ainvoke self [HumanMessage q] thread_id)).
           messages s \<noteq> [] \<and> hd (messages s) = HumanMessage q))
   \<and> (n \<in> {Assistant, Retriever, Generator, Rewriter, WebSearch}
        \<and> step self n state = Inr (n', state')
      \<longrightarrow> (\<exists>c. node_fn self n state = Inr [HumanMessage c]
              \<and> messages state' = messages state @ [HumanMessage c]
              \<and> last (messages state') = HumanMessage c))"
proof -
  have a: "\<exists>appended. messages s =
        (case checkpointer self thread_id of None \<Rightarrow> [] | Some st \<Rightarrow> messages st)
        @ HumanMessage q # appended"
    if "s \<in> set (states_of (app_ainvoke self [HumanMessage q] thread_id))" for s
    using exec_states_extend[OF that[unfolded app_ainvoke_def Let_def]]
    by (auto simp: add_messages_def)
  have b: "messages s \<noteq> [] \<and> hd (messages s) = HumanMessage q"
    if "s \<in> set (states_of (app_ainvoke self [HumanMessage q] thread_id))"
      and "checkpointer self thread_id = None" for s
    using a[OF that(1)] that(2) by auto
  have c: "\<exists>c. node_fn self n state = Inr [HumanMessage c]
              \<and> messages state' = messages state @ [HumanMessage c]
              \<and> last (messages state') = HumanMessage c"
    if n: "n \<in> {Assistant, Retriever, Generator, Rewriter, WebSearch}"
      and st: "step self n state = Inr (n', state')"
  proof -
    from step_appends[OF st] obtain upd where
      u: "node_fn self n state = Inr upd" "state' = state\<lparr>messages := messages state @ upd\<rparr>"
      by blast
    from node_fn_one_message[OF n u(1)] obtain c where "upd = [HumanMessage c]" by blast
    with u show ?thesis by simp
  qed
  from a b c show ?thesis by blast
qed

text \<open>
  Claim C4. In every state of a run started with the query \<open>q\<close> the first message is to
  be \<open>q\<close>, and \<open>_grade_documents\<close>, \<open>_rewrite\<close> and \<open>_generate\<close> read the first message
  as the question. On a thread used before this fails: after a first run on the default
  thread with the query \<open>What is the price of iPhone 16?\<close>, a second run with the query
  \<open>Dell laptop review\<close> reaches a state whose first message is the first query.
\<close>

theorem resumed_thread_first_message:
  "committed (app_ainvoke resumed_rag [HumanMessage ''Dell laptop review''] default_thread)
     \<in> set (states_of (app_ainvoke resumed_rag [HumanMessage ''Dell laptop review''] default_thread))
   \<and> hd (messages (committed
         (app_ainvoke resumed_rag [HumanMessage ''Dell laptop review''] default_thread)))
       = HumanMessage ''What is the price of iPhone 16?''
   \<and> hd (messages (committed
         (app_ainvoke resumed_rag [HumanMessage ''Dell laptop review''] default_thread)))
       \<noteq> HumanMessage ''Dell laptop review''"
  by code_simp

text \<open>
  With collaborators that show what they were asked, the second run on the default
  thread rewrites, searches and answers the first query.
\<close>

lemma resumed_thread_answers_first_query:
  "fst (run echo_rag ''Dell laptop review'' default_thread)
     = Inr ''G:W:R:Dell laptop review Q:Dell laptop review''
   \<and> fst (run (snd (run echo_rag ''iPhone price'' default_thread))
          ''Dell laptop review'' default_thread)
     = Inr ''G:W:R:iPhone price Q:iPhone price''"
  by code_simp

section \<open>Properties of the tool server\<close>

lemma join_Cons: "\<exists>rest. join sep (x # xs) = x @ rest"
  by (cases xs) auto

lemma format_docs_Title:
  "docs \<noteq> [] \<Longrightarrow> \<exists>rest. format_docs docs = ''Title: '' @ rest"
proof -
  assume "docs \<noteq> []"
  then obtain d ds where d: "docs = d # ds" by (cases docs) auto
  obtain rest where "join (nl @ nl @ ''---'' @ nl @ nl) (map format_doc (d # ds))
      = format_doc d @ rest"
    using join_Cons[of _ "format_doc d" "map format_doc ds"] by auto
  with d show ?thesis
    by (simp add: format_docs_def format_doc_def Let_def)
qed

lemma format_docs_not_blank:
  assumes "docs \<noteq> []"
  shows "\<not> list_all isspace (format_docs docs)" and "format_docs docs \<noteq> no_local_results"
proof -
  from format_docs_Title[OF assms] obtain rest where r: "format_docs docs = ''Title: '' @ rest"
    by blast
  show "\<not> list_all isspace (format_docs docs)"
    unfolding r by (simp add: isspace_def)
  show "format_docs docs \<noteq> no_local_results"
    unfolding r by (simp add: no_local_results_def)
qed

lemma get_product_info_returns:
  "retriever_invoke srv query = Inr docs \<Longrightarrow>
     get_product_info srv query
       = Inr (if list_all isspace (format_docs docs) then no_local_results else format_docs docs)"
  by (simp add: get_product_info_def get_product_info_try_def Let_def strip_empty_iff)

lemma get_product_info_caught:
  "retriever_invoke srv query = Inl e \<Longrightarrow>
     get_product_info srv query = Inr (''Error retrieving product info: '' @ exn_str e)"
  by (simp add: get_product_info_def get_product_info_try_def)

text \<open>
  Claim C5. \<open>get_product_info\<close> and \<open>web_search\<close> always return a string. When the
  retriever returns documents, \<open>get_product_info\<close> returns \<open>No local results found.\<close>
  exactly when the formatted context is empty or all whitespace, and the context itself
  otherwise; when the retriever raises, it returns \<open>Error retrieving product info: \<close>
  followed by the text of the exception, which is not the sentinel. \<open>web_search\<close> returns
  the search result, or \<open>Error during web search: \<close> followed by the text of the
  exception.
\<close>

theorem tools_never_raise:
  "(\<exists>r. get_product_info srv query = Inr r) \<and> (\<exists>r. web_search srv query = Inr r)
   \<and> (\<forall>docs. retriever_invoke srv query = Inr docs \<longrightarrow>
         (get_product_info srv query = Inr no_local_results
            \<longleftrightarrow> list_all isspace (format_docs docs))
         \<and> (\<not> list_all isspace (format_docs docs)
              \<longrightarrow> get_product_info srv query = Inr (format_docs docs)))
   \<and> (\<forall>e. retriever_invoke srv query = Inl e \<longrightarrow>
         get_product_info srv query = Inr (''Error retrieving product info: '' @ exn_str e)
         \<and> get_product_info srv query \<noteq> Inr no_local_results)
   \<and> (\<forall>e. duckduckgo_run srv query = Inl e \<longrightarrow>
         web_search srv query = Inr (''Error during web search: '' @ exn_str e))
   \<and> (\<forall>r. duckduckgo_run srv query = Inr r \<longrightarrow> web_search srv query = Inr r)"
proof -
  have 1: "\<exists>r. get_product_info srv query = Inr r"
    by (cases "retriever_invoke srv query")
       (simp_all add: get_product_info_caught get_product_info_returns)
  have 2: "\<exists>r. web_search srv query = Inr r"
    by (cases "duckduckgo_run srv query") (simp_all add: web_search_def)
  have 3: "(get_product_info srv query = Inr no_local_results
            \<longleftrightarrow> list_all isspace (format_docs docs))
         \<and> (\<not> list_all isspace (format_docs docs)
              \<longrightarrow> get_product_info srv query = Inr (format_docs docs))"
    if "retriever_invoke srv query = Inr docs" for docs
  proof (cases "docs = []")
    case True
    with that show ?thesis
      by (simp add: get_product_info_returns format_docs_def)
  next
    case False
    from format_docs_not_blank[OF False] that show ?thesis
      by (simp add: get_product_info_returns)
  qed
  have 4: "get_product_info srv query = Inr (''Error retrieving product info: '' @ exn_str e)
         \<and> get_product_info srv query \<noteq> Inr no_local_results"
    if "retriever_invoke srv query = Inl e" for e
    using that by (simp add: get_product_info_caught no_local_results_def)
  have 5: "web_search srv query = Inr (''Error during web search: '' @ exn_str e)"
    if "duckduckgo_run srv query = Inl e" for e
    using that by (simp add: web_search_def)
  have 6: "web_search srv query = Inr r" if "duckduckgo_run srv query = Inr r" for r
    using that by (simp add: web_search_def)
  from 1 2 3 4 5 6 show ?thesis by blast
qed

theorem tools_never_raise_witness:
  "retriever_invoke example_server ''Dell Laptop?'' = Inr []
   \<and> get_product_info example_server ''Dell Laptop?'' = Inr ''No local results found.''
   \<and> retriever_invoke example_server ''Lenovo'' = Inl (Exn ''ConnectionError'' ''database unreachable'')
   \<and> get_product_info example_server ''Lenovo''
       = Inr ''Error retrieving product info: database unreachable''
   \<and> duckduckgo_run example_server ''Lenovo'' = Inl (Exn ''RatelimitException'' ''202 Ratelimit'')
   \<and> web_search example_server ''Lenovo'' = Inr ''Error during web search: 202 Ratelimit''
   \<and> web_search example_server ''Dell Laptop?'' = Inr ''Dell laptops from 499 USD''"
proof -
  have 1: "retriever_invoke example_server ''Dell Laptop?'' = Inr []"
    by (simp add: example_server_def)
  have 2: "retriever_invoke example_server ''Lenovo'' = Inl (Exn ''ConnectionError'' ''database unreachable'')"
    by (simp add: example_server_def)
  have 3: "duckduckgo_run example_server ''Lenovo'' = Inl (Exn ''RatelimitException'' ''202 Ratelimit'')"
    by (simp add: example_server_def)
  have 4: "duckduckgo_run example_server ''Dell Laptop?'' = Inr ''Dell laptops from 499 USD''"
    by (simp add: example_server_def)
  have 5: "list_all isspace (format_docs [])"
    by (simp add: format_docs_def)
  from 1 2 3 4 5 tools_never_raise[of example_server "''Dell Laptop?''"]
    tools_never_raise[of example_server "''Lenovo''"]
  show ?thesis by (simp add: no_local_results_def)
qed

section \<open>Properties of the client\<close>

lemma first_tool_name: "first_tool tools nm = Inr t \<Longrightarrow> name t = nm"
  by (auto simp: first_tool_def find_Some_iff split: option.splits)

lemma invocations_simps:
  "invocations nm [] = 0"
  "invocations nm (Print x # evs) = invocations nm evs"
  "invocations nm (PrintTools ns # evs) = invocations nm evs"
  "invocations nm (Invoke n q # evs) = (if n = nm then 1 else 0) + invocations nm evs"
  by (simp_all add: invocations_def)

lemma fallback_taken:
  assumes "list_all isspace r \<or> sublist no_local_results r"
  shows "invocations (name web_tool) (fallback web_tool query r) = 1"
    and "ainvoke web_tool query = Inr w \<Longrightarrow>
           last (fallback web_tool query r) = Print (''Web Search Result:'' @ nl @ '' '' @ w)"
  using assms
  by (auto simp: fallback_def strip_empty_iff invocations_simps error_occurred_def
      split: sum.splits)

lemma fallback_skipped:
  assumes "\<not> list_all isspace r" and "\<not> sublist no_local_results r"
  shows "fallback web_tool query r = []"
  using assms by (simp add: fallback_def strip_empty_iff)

lemma client_main_events:
  assumes "first_tool tools ''get_product_info'' = Inr retriever_tool"
    and "first_tool tools ''web_search'' = Inr web_tool"
    and "ainvoke retriever_tool ''Dell Laptop?'' = Inr r"
  shows "client_main (Inr tools)
         = [Print ''Creating MCP client...'',
            Print ''Connecting to MCP server and discovering tools...'',
            PrintTools (map name tools),
            Print ''Querying retriever with: Dell Laptop?'',
            Invoke ''get_product_info'' ''Dell Laptop?'',
            Print (nl @ ''Retriever Result:'' @ nl @ '' '' @ r)]
           @ fallback web_tool ''Dell Laptop?'' r"
  using assms first_tool_name[OF assms(1)]
  by (simp add: client_main_def Let_def)

text \<open>
  Claim C8. When the retriever tool answers the query \<open>Dell Laptop?\<close> with a result that
  is empty, all whitespace, or contains \<open>No local results found.\<close>, \<open>main\<close> invokes
  \<open>web_search\<close> exactly once and, when that tool answers, what it reports last is the
  web search result. For every other result, one with a character that is not whitespace
  and without the sentinel, \<open>web_search\<close> is not invoked and the last line is the
  retriever result.
\<close>

theorem fallback_to_web_search:
  "first_tool tools ''get_product_info'' = Inr retriever_tool
   \<and> first_tool tools ''web_search'' = Inr web_tool
   \<and> ainvoke retriever_tool ''Dell Laptop?'' = Inr r
   \<longrightarrow> (list_all isspace r \<or> sublist no_local_results r \<longrightarrow>
          invocations ''web_search'' (client_main (Inr tools)) = 1
          \<and> (\<forall>w. ainvoke web_tool ''Dell Laptop?'' = Inr w \<longrightarrow>
                last (client_main (Inr tools))
                  = Print (''Web Search Result:'' @ nl @ '' '' @ w)))
     \<and> (\<not> list_all isspace r \<and> \<not> sublist no_local_results r \<longrightarrow>
          invocations ''web_search'' (client_main (Inr tools)) = 0
          \<and> last (client_main (Inr tools))
              = Print (nl @ ''Retriever Result:'' @ nl @ '' '' @ r))"
proof (intro impI, elim conjE)
  assume rt: "first_tool tools ''get_product_info'' = Inr retriever_tool"
    and wt: "first_tool tools ''web_search'' = Inr web_tool"
    and r: "ainvoke retriever_tool ''Dell Laptop?'' = Inr r"
  note ev = client_main_events[OF rt wt r]
  from first_tool_name[OF wt] have nm: "name web_tool = ''web_search''" .
  have pre: "invocations ''web_search'' (client_main (Inr tools))
      = invocations ''web_search'' (fallback web_tool ''Dell Laptop?'' r)"
    unfolding ev by (simp add: invocations_simps)
  have a: "invocations ''web_search'' (client_main (Inr tools)) = 1
          \<and> (\<forall>w. ainvoke web_tool ''Dell Laptop?'' = Inr w \<longrightarrow>
                last (client_main (Inr tools))
                  = Print (''Web Search Result:'' @ nl @ '' '' @ w))"
    if t: "list_all isspace r \<or> sublist no_local_results r"
  proof -
    from fallback_taken(1)[OF t, of web_tool "''Dell Laptop?''"] nm pre
    have 1: "invocations ''web_search'' (client_main (Inr tools)) = 1" by simp
    then have ne: "fallback web_tool ''Dell Laptop?'' r \<noteq> []"
      using pre by (auto simp: invocations_simps)
    have "last (client_main (Inr tools)) = Print (''Web Search Result:'' @ nl @ '' '' @ w)"
      if "ainvoke web_tool ''Dell Laptop?'' = Inr w" for w
      using fallback_taken(2)[OF t that] ne unfolding ev by simp
    with 1 show ?thesis by blast
  qed
  have b: "invocations ''web_search'' (client_main (Inr tools)) = 0
          \<and> last (client_main (Inr tools))
              = Print (nl @ ''Retriever Result:'' @ nl @ '' '' @ r)"
    if "\<not> list_all isspace r" and "\<not> sublist no_local_results r"
    unfolding ev using fallback_skipped[OF that] by (simp add: invocations_simps)
  from a b show "(list_all isspace r \<or> sublist no_local_results r \<longrightarrow>
          invocations ''web_search'' (client_main (Inr tools)) = 1
          \<and> (\<forall>w. ainvoke web_tool ''Dell Laptop?'' = Inr w \<longrightarrow>
                last (client_main (Inr tools))
                  = Print (''Web Search Result:'' @ nl @ '' '' @ w)))
     \<and> (\<not> list_all isspace r \<and> \<not> sublist no_local_results r \<longrightarrow>
          invocations ''web_search'' (client_main (Inr tools)) = 0
          \<and> last (client_main (Inr tools))
              = Print (nl @ ''Retriever Result:'' @ nl @ '' '' @ r))"
    by blast
qed

theorem fallback_to_web_search_witness:
  "invocations ''web_search'' (client_main (Inr (client_tools []))) = 1
   \<and> last (client_main (Inr (client_tools [])))
       = Print (''Web Search Result:'' @ nl @ '' Dell laptops from 499 USD'')
   \<and> invocations ''web_search'' (client_main (Inr (client_tools ''Title: Dell XPS''))) = 0"
proof -
  have 1: "first_tool (client_tools r) ''get_product_info''
      = Inr \<lparr>name = ''get_product_info'', ainvoke = (\<lambda>q. Inr r)\<rparr>" for r
    by (simp add: first_tool_def client_tools_def)
  have 2: "first_tool (client_tools r) ''web_search''
      = Inr \<lparr>name = ''web_search'', ainvoke = (\<lambda>q. Inr ''Dell laptops from 499 USD'')\<rparr>" for r
    by (simp add: first_tool_def client_tools_def)
  have 3: "\<not> list_all isspace ''Title: Dell XPS''"
    by (simp add: isspace_def)
  have 4: "\<not> sublist no_local_results ''Title: Dell XPS''"
    by (simp add: no_local_results_def sublist_code)
  from fallback_to_web_search[of "client_tools []"
      "\<lparr>name = ''get_product_info'', ainvoke = (\<lambda>q. Inr [])\<rparr>"
      "\<lparr>name = ''web_search'', ainvoke = (\<lambda>q. Inr ''Dell laptops from 499 USD'')\<rparr>" "[]"]
    fallback_to_web_search[of "client_tools ''Title: Dell XPS''"
      "\<lparr>name = ''get_product_info'', ainvoke = (\<lambda>q. Inr ''Title: Dell XPS'')\<rparr>"
      "\<lparr>name = ''web_search'', ainvoke = (\<lambda>q. Inr ''Dell laptops from 499 USD'')\<rparr>"
      "''Title: Dell XPS''"]
    1 2 3 4
  show ?thesis by simp
qed

section \<open>Properties of the ingestion\<close>

lemma load_csv_missing_column:
  assumes "read_csv env path = Some (Inr df)"
    and "\<exists>c \<in> set expected_columns. c \<notin> set (columns df)"
  shows "\<exists>msg. load_csv env path = Inl (Exn ''ValueError'' msg)"
proof -
  from assms(2) have "\<not> set expected_columns \<subseteq> set (columns df)" by blast
  with assms(1) show ?thesis by (simp add: load_csv_def)
qed

lemma ingestion_main_init_raises:
  "DataIngestion_init env = Inl e \<Longrightarrow> ingestion_main env store = (Some e, store)"
  by (simp add: ingestion_main_def)

text \<open>
  Claim C6. When the file at the path of \<open>_get_csv_path\<close> is read into a data frame
  that lacks one of the six required columns, \<open>_load_csv\<close> raises \<open>ValueError\<close>, so
  \<open>__init__\<close> raises and no \<open>DataIngestion\<close> object exists on which \<open>transform_data\<close>
  could run: the script ends with that exception and the collection is as it was. The
  exception is the \<open>ValueError\<close> unless an earlier step of \<open>__init__\<close> has raised.
\<close>

theorem missing_column_fails_before_documents:
  "get_csv_path env = Inr path \<and> read_csv env path = Some (Inr df)
   \<and> (\<exists>c \<in> set expected_columns. c \<notin> set (columns df))
   \<longrightarrow> (\<exists>msg. load_csv env path = Inl (Exn ''ValueError'' msg))
     \<and> (\<exists>e. DataIngestion_init env = Inl e \<and> ingestion_main env store = (Some e, store))
     \<and> (ModelLoader env = None \<and> load_env_variables env = None
          \<longrightarrow> (\<exists>msg. DataIngestion_init env = Inl (Exn ''ValueError'' msg)))"
proof (intro impI, elim conjE)
  assume p: "get_csv_path env = Inr path" and f: "read_csv env path = Some (Inr df)"
    and m: "\<exists>c \<in> set expected_columns. c \<notin> set (columns df)"
  from load_csv_missing_column[OF f m] obtain msg where
    l: "load_csv env path = Inl (Exn ''ValueError'' msg)" by blast
  have i: "\<exists>e. DataIngestion_init env = Inl e"
    using p l by (simp add: DataIngestion_init_def split: option.splits)
  then obtain e where e: "DataIngestion_init env = Inl e" by blast
  have v: "DataIngestion_init env = Inl (Exn ''ValueError'' msg)"
    if "ModelLoader env = None" and "load_env_variables env = None"
    using that p l by (simp add: DataIngestion_init_def)
  from l e ingestion_main_init_raises[OF e] v
  show "(\<exists>msg. load_csv env path = Inl (Exn ''ValueError'' msg))
     \<and> (\<exists>e. DataIngestion_init env = Inl e \<and> ingestion_main env store = (Some e, store))
     \<and> (ModelLoader env = None \<and> load_env_variables env = None
          \<longrightarrow> (\<exists>msg. DataIngestion_init env = Inl (Exn ''ValueError'' msg)))"
    by blast
qed

theorem missing_column_fails_before_documents_witness:
  "get_csv_path example_ingestion_env = Inr ''/app/data/product_reviews.csv''
   \<and> read_csv example_ingestion_env ''/app/data/product_reviews.csv'' = Some (Inr example_frame)
   \<and> ''price'' \<in> set expected_columns \<and> ''price'' \<notin> set (columns example_frame)
   \<and> ModelLoader example_ingestion_env = None
   \<and> load_env_variables example_ingestion_env = None
   \<and> (\<exists>msg. DataIngestion_init example_ingestion_env = Inl (Exn ''ValueError'' msg))
   \<and> (\<exists>e. ingestion_main example_ingestion_env [] = (Some e, []))"
proof -
  have 1: "get_csv_path example_ingestion_env = Inr ''/app/data/product_reviews.csv''"
    by (simp add: get_csv_path_def example_ingestion_env_def Let_def)
  have 2: "read_csv example_ingestion_env ''/app/data/product_reviews.csv''
      = Some (Inr example_frame)"
    by (simp add: example_ingestion_env_def)
  have 3: "''price'' \<in> set expected_columns" "''price'' \<notin> set (columns example_frame)"
    by (simp_all add: expected_columns_def example_frame_def)
  then have 4: "\<exists>c \<in> set expected_columns. c \<notin> set (columns example_frame)"
    by blast
  have 5: "ModelLoader example_ingestion_env = None"
    by (simp add: example_ingestion_env_def)
  have 6: "load_env_variables example_ingestion_env = None"
    by (simp add: load_env_variables_def example_ingestion_env_def required_vars_def)
  from 1 2 3 4 5 6
    missing_column_fails_before_documents[of example_ingestion_env
      "''/app/data/product_reviews.csv''" example_frame "[]"]
  show ?thesis by auto
qed

section \<open>Properties of the retriever\<close>

lemma config_top_k_present:
  "map_of (config self) ''retriever'' = Some (YDict kvs) \<Longrightarrow> map_of kvs ''top_k'' = Some k
     \<Longrightarrow> config_top_k self = Inr k"
  by (simp add: config_top_k_def)

lemma config_top_k_no_section:
  "map_of (config self) ''retriever'' = None \<Longrightarrow> config_top_k self = Inr (YInt 3)"
  by (simp add: config_top_k_def)

lemma config_top_k_no_key:
  "map_of (config self) ''retriever'' = Some (YDict kvs) \<Longrightarrow> map_of kvs ''top_k'' = None
     \<Longrightarrow> config_top_k self = Inl (Exn ''KeyError'' ([CHR 0x27] @ ''top_k'' @ [CHR 0x27]))"
  by (simp add: config_top_k_def)

lemma load_retriever_top_k:
  assumes "load_retriever self = (Inr r, self')" and "retriever_instance self = None"
  shows "config_top_k self = Inr (top_k (base_retriever r))"
proof -
  from assms(1) obtain self1 where 1: "load_vstore self = Inr self1"
    by (auto simp: load_retriever_def split: sum.splits)
  then have c: "config self1 = config self" and i: "retriever_instance self1 = retriever_instance self"
    by (auto simp: load_vstore_def split: if_splits sum.splits option.splits)
  from c have k: "config_top_k self1 = config_top_k self"
    by (simp add: config_top_k_def)
  from assms 1 i show ?thesis
    unfolding k[symmetric]
    by (auto simp: load_retriever_def Let_def split: sum.splits option.splits)
qed

text \<open>
  Claim C9. \<open>load_retriever\<close> passes on the \<open>top_k\<close> of the section \<open>retriever\<close> of the
  configuration (\<open>config_top_k_present\<close>, \<open>load_retriever_top_k\<close>) and uses 3 when the
  configuration has no such section (\<open>config_top_k_no_section\<close>). When the section is
  there and \<open>top_k\<close> is not in it, the lookup raises \<open>KeyError\<close> instead of using 3
  (\<open>config_top_k_no_key\<close>): so for the configuration whose section \<open>retriever\<close> holds only
  \<open>fetch_k\<close>.
\<close>

theorem section_without_top_k_raises:
  "map_of (config example_retriever) ''retriever'' = Some (YDict [(''fetch_k'', YInt 20)])
   \<and> config_top_k example_retriever
       = Inl (Exn ''KeyError'' ([CHR 0x27] @ ''top_k'' @ [CHR 0x27]))
   \<and> fst (load_retriever example_retriever)
       = Inl (Exn ''KeyError'' ([CHR 0x27] @ ''top_k'' @ [CHR 0x27]))"
  by (simp add: example_retriever_def config_top_k_def load_retriever_def load_vstore_def)

section \<open>Properties of the evaluation\<close>

text \<open>
  Claim C10. \<open>evaluate_context_precision\<close> and \<open>evaluate_response_relevancy\<close> always
  return: the score when the \<open>try\<close> block yields one, and otherwise the exception that
  the block raised, as a value.
\<close>

theorem evaluation_never_raises:
  "(\<exists>v. evaluate_context_precision env query answer contexts = Inr v)
   \<and> (\<exists>v. evaluate_response_relevancy env query answer contexts = Inr v)
   \<and> (\<forall>e. evaluate_context_precision_try env query answer contexts = Inl e \<longrightarrow>
         evaluate_context_precision env query answer contexts = Inr (ExceptionObject e))
   \<and> (\<forall>x. evaluate_context_precision_try env query answer contexts = Inr x \<longrightarrow>
         evaluate_context_precision env query answer contexts = Inr (Score x))
   \<and> (\<forall>e. evaluate_response_relevancy_try env query answer contexts = Inl e \<longrightarrow>
         evaluate_response_relevancy env query answer contexts = Inr (ExceptionObject e))
   \<and> (\<forall>x. evaluate_response_relevancy_try env query answer contexts = Inr x \<longrightarrow>
         evaluate_response_relevancy env query answer contexts = Inr (Score x))"
  by (cases "evaluate_context_precision_try env query answer contexts";
      cases "evaluate_response_relevancy_try env query answer contexts")
     (simp_all add: evaluate_context_precision_def evaluate_response_relevancy_def)

theorem evaluation_never_raises_witness:
  "evaluate_response_relevancy_try example_evaluation_env ''Dell?'' ''Good laptops'' [''Title: Dell'']
     = Inl (Exn ''ValueError'' ''no embedding model'')
   \<and> evaluate_response_relevancy example_evaluation_env ''Dell?'' ''Good laptops'' [''Title: Dell'']
     = Inr (ExceptionObject (Exn ''ValueError'' ''no embedding model''))
   \<and> evaluate_context_precision_try example_evaluation_env ''Dell?'' ''Good laptops'' [''Title: Dell'']
     = Inr 1
   \<and> evaluate_context_precision example_evaluation_env ''Dell?'' ''Good laptops'' [''Title: Dell'']
     = Inr (Score 1)"
proof -
  have 1: "evaluate_response_relevancy_try example_evaluation_env ''Dell?'' ''Good laptops''
      [''Title: Dell''] = Inl (Exn ''ValueError'' ''no embedding model'')"
    by (simp add: evaluate_response_relevancy_try_def example_evaluation_env_def)
  have 2: "evaluate_context_precision_try example_evaluation_env ''Dell?'' ''Good laptops''
      [''Title: Dell''] = Inr 1"
    by (simp add: evaluate_context_precision_try_def example_evaluation_env_def)
  from 1 2 evaluation_never_raises[of example_evaluation_env "''Dell?''" "''Good laptops''"
      "[''Title: Dell'']"]
  show ?thesis by simp
qed

end
